theory Spec2Isabelle
  imports Main "HOL-Library.Word"
begin

section \<open>The AIConsultation component: data\<close>

text \<open>
  The component under study is the React function component \<open>AIConsultation\<close>. Its
  hooks (\<open>useState\<close>, \<open>useRef\<close>) and the platform objects its handlers touch
  (media streams, recorders, the object-URL store, the network) are gathered in one
  record, and every handler is a function from that record to the updated one. An
  \<open>async\<close> handler is split at its \<open>await\<close>: the part before it, and the
  continuation, which takes the outcome of the awaited promise as an argument.
  The setters and refs act on the current state; what a handler reads of the state
  (\<open>audioFile\<close> and \<open>imageFile\<close> in \<open>handleFullConsultation\<close>) and what the
  page shows (the \<open>disabled\<close> attribute of the consult button) are those of the last
  committed render, which is kept apart from the state.
\<close>

type_synonym byte = "8 word"

text \<open>A \<open>Blob\<close> is its bytes and its \<open>type\<close>; a \<open>File\<close> adds a name.\<close>

record blob =
  blob_bytes :: "byte list"
  blob_type :: string

record js_file =
  file_bytes :: "byte list"
  file_name :: string
  file_type :: string

text \<open>The parts accepted by the \<open>Blob\<close> and \<open>File\<close> constructors.\<close>

datatype blob_part = BlobPart blob | BufferPart "byte list"

fun part_bytes :: "blob_part \<Rightarrow> byte list" where
  "part_bytes (BlobPart b) = blob_bytes b"
| "part_bytes (BufferPart bs) = bs"

definition new_Blob :: "blob_part list \<Rightarrow> string \<Rightarrow> blob" where
  "new_Blob parts ty = \<lparr>blob_bytes = concat (map part_bytes parts), blob_type = ty\<rparr>"

definition new_File :: "blob_part list \<Rightarrow> string \<Rightarrow> string \<Rightarrow> js_file" where
  "new_File parts nm ty =
     \<lparr>file_bytes = concat (map part_bytes parts), file_name = nm, file_type = ty\<rparr>"

text \<open>
  A \<open>MediaStreamTrack\<close>: whether it has ended, and how often \<open>stop()\<close> was called
  on it. A \<open>MediaStream\<close> is the list of its tracks.
\<close>

record track =
  ended :: bool
  stop_calls :: nat

definition track_stop :: "track \<Rightarrow> track" where
  "track_stop t = t\<lparr>ended := True, stop_calls := stop_calls t + 1\<rparr>"

definition live_track :: track where
  "live_track = \<lparr>ended = False, stop_calls = 0\<rparr>"

text \<open>
  A \<open>MediaRecorder\<close>: its \<open>state\<close>, the stream it was constructed on (the
  \<open>stream\<close> that its \<open>onstop\<close> closure captures), and whether the platform has a
  \<open>stop\<close> event queued for it.
\<close>

datatype recording_state = Inactive | Recording

record recorder =
  rec_state :: recording_state
  rec_stream :: nat
  stop_queued :: bool

text \<open>The \<open>FormData\<close> of one request: a part is there iff it was appended.\<close>

record form_data =
  form_audio :: "js_file option"
  form_image :: "js_file option"

text \<open>
  The body of a successful reply. Each field may be missing (\<open>None\<close>, JavaScript's
  \<open>undefined\<close>) or a string, possibly empty.
\<close>

record reply =
  r_transcription :: "string option"
  r_analysis :: "string option"
  r_response_audio :: "string option"

text \<open>
  A rejected \<open>axios.post\<close>: without a response (network failure, timeout), carrying
  only \<open>err.message\<close>; or with a response of some status whose body may hold an
  \<open>error\<close> field.
\<close>

datatype axios_error = NoResponse string | WithResponse nat "string option"

datatype axios_result = Fulfilled reply | Rejected axios_error

text \<open>Whether a platform constructor runs to completion or throws.\<close>

datatype completion = Completes | Throws string

text \<open>
  What happens to the recorder once \<open>getUserMedia\<close> has granted a stream:
  \<open>new MediaRecorder(stream)\<close> throws, or the recorder is constructed and its
  \<open>start()\<close> throws, or it starts.
\<close>

datatype recorder_start = Starts | ConstructorThrows string | StartThrows string

record world =
  audioFile :: "js_file option"
  imageFile :: "js_file option"
  transcription :: "string option"
  imageAnalysis :: "string option"
  responseAudio :: "nat option"
  loading :: bool
  error :: "string option"
  isRecording :: bool
  mediaRecorderRef :: "nat option"
  audioChunksRef :: "blob list"
  streams :: "track list list"
  recorders :: "recorder list"
  objectURLs :: "blob list"
  posted :: "form_data list"
  atobCalls :: "string list"
  uncaught :: "string list"

text \<open>
  The first ten fields are the component's state and refs, under the source's names.
  The others are the platform: \<open>streams\<close> and \<open>recorders\<close> are stores indexed by
  identity; \<open>objectURLs\<close> is the object-URL store, where the URL returned by
  \<open>URL.createObjectURL\<close> is the index of its entry and an entry leaves the store only
  through \<open>URL.revokeObjectURL\<close>; \<open>posted\<close> logs the requests sent to the
  consultation endpoint, \<open>atobCalls\<close> the arguments \<open>atob\<close> was called with, and
  \<open>uncaught\<close> the exceptions that left an event handler.
\<close>

definition init :: world where
  "init = \<lparr>audioFile = None, imageFile = None, transcription = Some [],
     imageAnalysis = Some [], responseAudio = None, loading = False, error = None,
     isRecording = False, mediaRecorderRef = None, audioChunksRef = [],
     streams = [], recorders = [], objectURLs = [], posted = [], atobCalls = [],
     uncaught = []\<rparr>"

section \<open>JavaScript and the platform\<close>

text \<open>Truthiness of a value that is \<open>undefined\<close> or a string.\<close>

fun truthy :: "string option \<Rightarrow> bool" where
  "truthy None = False"
| "truthy (Some s) = (s \<noteq> [])"

text \<open>\<open>v || d\<close> on such a value.\<close>

fun js_or :: "string option \<Rightarrow> string \<Rightarrow> string" where
  "js_or None d = d"
| "js_or (Some s) d = (if s \<noteq> [] then s else d)"

text \<open>
  \<open>atob\<close> is the platform's forgiving base64 decoder: ASCII whitespace is dropped, up
  to two padding characters are dropped when the length is a multiple of four, a
  length of one modulo four or a character outside the alphabet is an error
  (\<open>None\<close>, the \<open>InvalidCharacterError\<close> it throws), and the remaining sextets are
  packed into bytes.
\<close>

definition b64_alphabet :: string where
  "b64_alphabet = ''ABCDEFGHIJKLMNOPQRSTUVWXYZabcdefghijklmnopqrstuvwxyz0123456789+/''"

fun index_of :: "'a \<Rightarrow> 'a list \<Rightarrow> nat option" where
  "index_of x [] = None"
| "index_of x (y # ys) =
     (if x = y then Some 0 else map_option Suc (index_of x ys))"

fun sextets :: "string \<Rightarrow> nat list option" where
  "sextets [] = Some []"
| "sextets (c # cs) =
     (case index_of c b64_alphabet of
        None \<Rightarrow> None
      | Some v \<Rightarrow> map_option ((#) v) (sextets cs))"

fun pack :: "nat list \<Rightarrow> nat list" where
  "pack (a # b # c # d # r) =
     (a * 4 + b div 16) # ((b mod 16) * 16 + c div 4) # ((c mod 4) * 64 + d) # pack r"
| "pack [a, b, c] = [a * 4 + b div 16, (b mod 16) * 16 + c div 4]"
| "pack [a, b] = [a * 4 + b div 16]"
| "pack _ = []"

definition is_ascii_whitespace :: "char \<Rightarrow> bool" where
  "is_ascii_whitespace c = (of_char c \<in> {9, 10, 12, 13, 32 :: nat})"

definition strip_padding :: "string \<Rightarrow> string" where
  "strip_padding s =
     (if length s mod 4 = 0 \<and> s \<noteq> [] \<and> last s = CHR ''=''
      then (if butlast s \<noteq> [] \<and> last (butlast s) = CHR ''=''
            then butlast (butlast s) else butlast s)
      else s)"

definition atob :: "string \<Rightarrow> string option" where
  "atob s =
     (let d = strip_padding (filter (\<lambda>c. \<not> is_ascii_whitespace c) s) in
      if length d mod 4 = 1 then None
      else map_option (map char_of \<circ> pack) (sextets d))"

text \<open>\<open>Uint8Array.from(str, c => c.charCodeAt(0))\<close>.\<close>

definition Uint8Array_from :: "string \<Rightarrow> byte list" where
  "Uint8Array_from str = map of_char str"

text \<open>
  \<open>MediaRecorder.stop()\<close>: nothing on an inactive recorder; otherwise the recorder
  becomes inactive and a \<open>stop\<close> event is queued for it (after the
  \<open>dataavailable\<close> event that carries what was gathered so far).
\<close>

definition MediaRecorder_stop :: "nat \<Rightarrow> world \<Rightarrow> world" where
  "MediaRecorder_stop r w =
     (if r < length (recorders w) \<and> rec_state (recorders w ! r) = Recording
      then w\<lparr>recorders := (recorders w)[r := (recorders w ! r)
                 \<lparr>rec_state := Inactive, stop_queued := True\<rparr>]\<rparr>
      else w)"

section \<open>The handlers\<close>

text \<open>
  \<open>startRecording\<close>, from the point where \<open>getUserMedia\<close> settles: rejected with a
  message, or resolved with a fresh stream of \<open>n\<close> live tracks. On that stream a
  recorder is constructed, \<open>mediaRecorderRef\<close> is set to it, the chunk list is
  reset, the two handlers \<open>ondataavailable\<close> and \<open>onstop\<close> below are installed,
  the recorder is started and the flag is set. An exception thrown on the way (by
  \<open>getUserMedia\<close>, by the constructor or by \<open>start()\<close>) goes to the one
  \<open>catch\<close> block, which shows its message and does nothing about a stream that was
  already granted.
\<close>

definition microphone_error :: "string \<Rightarrow> string" where
  "microphone_error msg = ''Error accessing microphone: '' @ msg"

definition startRecording :: "string + nat \<times> recorder_start \<Rightarrow> world \<Rightarrow> world" where
  "startRecording granted w =
     (case granted of
        Inl msg \<Rightarrow> w\<lparr>error := Some (microphone_error msg)\<rparr>
      | Inr (n, outcome) \<Rightarrow>
          (let w1 = w\<lparr>streams := streams w @ [replicate n live_track]\<rparr>
           in case outcome of
                ConstructorThrows msg \<Rightarrow> w1\<lparr>error := Some (microphone_error msg)\<rparr>
              | StartThrows msg \<Rightarrow>
                  w1\<lparr>recorders := recorders w @
                       [\<lparr>rec_state = Inactive, rec_stream = length (streams w),
                         stop_queued = False\<rparr>],
                     mediaRecorderRef := Some (length (recorders w)),
                     audioChunksRef := [],
                     error := Some (microphone_error msg)\<rparr>
              | Starts \<Rightarrow>
                  w1\<lparr>recorders := recorders w @
                       [\<lparr>rec_state = Recording, rec_stream = length (streams w),
                         stop_queued = False\<rparr>],
                     mediaRecorderRef := Some (length (recorders w)),
                     audioChunksRef := [],
                     isRecording := True\<rparr>))"

text \<open>The \<open>ondataavailable\<close> handler.\<close>

definition ondataavailable :: "blob \<Rightarrow> world \<Rightarrow> world" where
  "ondataavailable data w = w\<lparr>audioChunksRef := audioChunksRef w @ [data]\<rparr>"

text \<open>
  The \<open>onstop\<close> handler of a recorder on stream \<open>sid\<close>. Its statements run in
  order; when the construction of the blob or the file throws, the exception leaves
  the handler and the statements after it do not run.
\<close>

definition onstop :: "completion \<Rightarrow> nat \<Rightarrow> world \<Rightarrow> world" where
  "onstop fin sid w =
     (case fin of
        Throws msg \<Rightarrow> w\<lparr>uncaught := uncaught w @ [msg]\<rparr>
      | Completes \<Rightarrow>
          (let audioBlob = new_Blob (map BlobPart (audioChunksRef w)) ''audio/wav'';
               audioFile' = new_File [BlobPart audioBlob] ''recording.wav'' ''audio/wav''
           in w\<lparr>audioFile := Some audioFile',
                streams := (streams w)[sid := map track_stop (streams w ! sid)]\<rparr>))"

text \<open>The platform delivers the queued \<open>stop\<close> event of recorder \<open>r\<close>, if any.\<close>

definition fire_stop :: "completion \<Rightarrow> nat \<Rightarrow> world \<Rightarrow> world" where
  "fire_stop fin r w =
     (if r < length (recorders w) \<and> stop_queued (recorders w ! r)
      then onstop fin (rec_stream (recorders w ! r))
             (w\<lparr>recorders := (recorders w)[r := (recorders w ! r)\<lparr>stop_queued := False\<rparr>]\<rparr>)
      else w)"

definition stopRecording :: "world \<Rightarrow> world" where
  "stopRecording w =
     (case mediaRecorderRef w of
        None \<Rightarrow> w
      | Some r \<Rightarrow> (MediaRecorder_stop r w)\<lparr>isRecording := False\<rparr>)"

definition handleImageUpload :: "js_file option \<Rightarrow> world \<Rightarrow> world" where
  "handleImageUpload f w = (case f of None \<Rightarrow> w | Some x \<Rightarrow> w\<lparr>imageFile := Some x\<rparr>)"

definition handleAudioUpload :: "js_file option \<Rightarrow> world \<Rightarrow> world" where
  "handleAudioUpload f w = (case f of None \<Rightarrow> w | Some x \<Rightarrow> w\<lparr>audioFile := Some x\<rparr>)"

definition missing_input_message :: string where
  "missing_input_message =
     ''Please provide either an audio recording or an image for consultation.''"

definition failure_message :: string where
  "failure_message = ''Failed to process consultation''"

text \<open>
  \<open>handleFullConsultation\<close> up to its \<open>await\<close>: the request is sent. This is the
  handler of the render of the world it runs in, so the slots it reads are the
  current ones.
\<close>

definition handleFullConsultation :: "world \<Rightarrow> world" where
  "handleFullConsultation w =
     (if audioFile w = None \<and> imageFile w = None
      then w\<lparr>error := Some missing_input_message\<rparr>
      else w\<lparr>loading := True, error := None,
             posted := posted w @ [\<lparr>form_audio = audioFile w, form_image = imageFile w\<rparr>]\<rparr>)"

text \<open>\<open>err.response?.data?.error || 'Failed to process consultation'\<close>.\<close>

fun error_text :: "axios_error \<Rightarrow> string" where
  "error_text (NoResponse msg) = failure_message"
| "error_text (WithResponse status body_error) = js_or body_error failure_message"

text \<open>
  \<open>handleFullConsultation\<close> from the point where the request settles. An exception
  thrown by \<open>atob\<close> has no \<open>response\<close>, so the \<open>catch\<close> block shows the fixed
  text; the \<open>finally\<close> block ends every branch.
\<close>

definition handleFullConsultation_resume :: "axios_result \<Rightarrow> world \<Rightarrow> world" where
  "handleFullConsultation_resume res w =
     (case res of
        Rejected err \<Rightarrow> w\<lparr>error := Some (error_text err), loading := False\<rparr>
      | Fulfilled data \<Rightarrow>
          (let w1 = w\<lparr>transcription := r_transcription data,
                      imageAnalysis := r_analysis data\<rparr>
           in if truthy (r_response_audio data)
              then (let payload = the (r_response_audio data);
                        w2 = w1\<lparr>atobCalls := atobCalls w1 @ [payload]\<rparr>
                    in case atob payload of
                         None \<Rightarrow> w2\<lparr>error := Some failure_message, loading := False\<rparr>
                       | Some bin \<Rightarrow>
                           (let audioBlob = new_Blob [BufferPart (Uint8Array_from bin)]
                                               ''audio/mpeg''
                            in w2\<lparr>objectURLs := objectURLs w2 @ [audioBlob],
                                  responseAudio := Some (length (objectURLs w2)),
                                  loading := False\<rparr>))
              else w1\<lparr>loading := False\<rparr>))"

text \<open>
  What a render leaves on the page for the consult button: its \<open>disabled\<close>
  attribute, and the \<open>audioFile\<close> and \<open>imageFile\<close> that the
  \<open>handleFullConsultation\<close> closure of that render refers to. Both stay as they
  are until the next render is committed, whatever the state has become meanwhile.
\<close>

record view =
  consult_button_disabled :: bool
  closure_audioFile :: "js_file option"
  closure_imageFile :: "js_file option"

text \<open>\<open>disabled={loading || (!audioFile && !imageFile)}\<close>, as a render evaluates it.\<close>

definition consult_disabled :: "world \<Rightarrow> bool" where
  "consult_disabled w = (loading w \<or> (audioFile w = None \<and> imageFile w = None))"

definition render :: "world \<Rightarrow> view" where
  "render w =
     \<lparr>consult_button_disabled = consult_disabled w, closure_audioFile = audioFile w,
      closure_imageFile = imageFile w\<rparr>"

text \<open>
  \<open>handleFullConsultation\<close> up to its \<open>await\<close>, as the closure of the render
  \<open>v\<close> running in the world \<open>w\<close>: the slots it tests and sends are those of
  \<open>v\<close>, and \<open>loading\<close> is not looked at. The definition
  \<open>handleFullConsultation\<close> above is the case where the render is that of \<open>w\<close>
  itself.
\<close>

definition handleFullConsultation_of :: "view \<Rightarrow> world \<Rightarrow> world" where
  "handleFullConsultation_of v w =
     (if closure_audioFile v = None \<and> closure_imageFile v = None
      then w\<lparr>error := Some missing_input_message\<rparr>
      else w\<lparr>loading := True, error := None,
             posted := posted w @
               [\<lparr>form_audio = closure_audioFile v, form_image = closure_imageFile v\<rparr>]\<rparr>)"

text \<open>
  A click on the consult button of the page that the render \<open>v\<close> left, in the
  world \<open>w\<close>: a disabled button reaches no handler, an enabled one runs the closure
  of \<open>v\<close>.
\<close>

definition click_consult :: "view \<Rightarrow> world \<Rightarrow> world" where
  "click_consult v w =
     (if consult_button_disabled v then w else handleFullConsultation_of v w)"

text \<open>
  The audio-response block, with its playback control, is rendered iff
  \<open>(transcription || imageAnalysis) && responseAudio\<close>; an object URL is never an
  empty string.
\<close>

definition playback_offered :: "world \<Rightarrow> bool" where
  "playback_offered w =
     ((truthy (transcription w) \<or> truthy (imageAnalysis w)) \<and> responseAudio w \<noteq> None)"


section \<open>Events\<close>

text \<open>
  What can happen to the component, one event at a time: \<open>getUserMedia\<close> settles
  after a click on the record button; a recorder delivers a chunk; the record button
  is clicked while it reads "stop"; the platform delivers the queued \<open>stop\<close> event
  of a recorder, whose handler finalizes the clip or throws; a recorder stops by itself
  because its tracks ended; a file input changes; the consult button is clicked; the
  request settles; the page is rendered again from the current state. An event acts
  on the page, which is the last render together with the world: only a render changes
  the former, and the other events change the latter. A run starts from the page
  rendered from a world and applies a list of events from left to right; its result is
  the world reached. Events are not restricted to the worlds in which the page would
  let them occur, and a render may come at any point or not at all, so the runs cover
  more than the page allows.
\<close>

datatype event =
    StartRecording "string + nat \<times> recorder_start"
  | DataAvailable blob
  | StopRecording
  | StopEvent completion nat
  | RecorderEnds nat
  | ImageUpload "js_file option"
  | AudioUpload "js_file option"
  | ClickConsult
  | Settle axios_result
  | Rerender

fun step :: "event \<Rightarrow> view \<times> world \<Rightarrow> view \<times> world" where
  "step (StartRecording granted) (v, w) = (v, startRecording granted w)"
| "step (DataAvailable d) (v, w) = (v, ondataavailable d w)"
| "step StopRecording (v, w) = (v, stopRecording w)"
| "step (StopEvent fin r) (v, w) = (v, fire_stop fin r w)"
| "step (RecorderEnds r) (v, w) = (v, MediaRecorder_stop r w)"
| "step (ImageUpload f) (v, w) = (v, handleImageUpload f w)"
| "step (AudioUpload f) (v, w) = (v, handleAudioUpload f w)"
| "step ClickConsult (v, w) = (v, click_consult v w)"
| "step (Settle res) (v, w) = (v, handleFullConsultation_resume res w)"
| "step Rerender (v, w) = (render w, w)"

definition run_page :: "event list \<Rightarrow> view \<times> world \<Rightarrow> view \<times> world" where
  "run_page es p = foldl (\<lambda>p e. step e p) p es"

definition run :: "event list \<Rightarrow> world \<Rightarrow> world" where
  "run es w = snd (run_page es (render w, w))"

text \<open>The events that end an outstanding request.\<close>

fun settles :: "event \<Rightarrow> bool" where
  "settles (Settle res) = True"
| "settles e = False"

section \<open>Scenarios\<close>

text \<open>
  One consultation from the user's side: on the page rendered from the current state,
  a click on the consult button, then the request settles with \<open>res\<close>.
\<close>

definition consult :: "axios_result \<Rightarrow> world \<Rightarrow> world" where
  "consult res w = handleFullConsultation_resume res (click_consult (render w) w)"

definition rash_png :: js_file where
  "rash_png = \<lparr>file_bytes = [], file_name = ''rash.png'', file_type = ''image/png''\<rparr>"

definition audio_reply :: reply where
  "audio_reply =
     \<lparr>r_transcription = None, r_analysis = Some ''Possible contact dermatitis'',
      r_response_audio = Some ''aGk=''\<rparr>"

definition text_reply :: reply where
  "text_reply =
     \<lparr>r_transcription = Some ''I have a headache'', r_analysis = None,
      r_response_audio = None\<rparr>"

text \<open>A world in which an image is staged, and one in which a recording is running.\<close>

definition staged :: world where
  "staged = handleImageUpload (Some rash_png) init"

definition recording :: world where
  "recording = startRecording (Inr (1, Starts)) init"

section \<open>Auxiliary facts\<close>

lemma atob_hi: "atob ''aGk='' = Some ''hi''"
  by code_simp

lemma atob_malformed: "atob ''!!!'' = None"
  by code_simp

lemma atob_Nil: "atob [] = Some []"
  by (simp add: atob_def strip_padding_def)

lemma atob_None_nonempty: "atob p = None \<Longrightarrow> p \<noteq> []"
  using atob_Nil by auto

lemma chunks_foldl:
  "audioChunksRef (foldl (\<lambda>w c. ondataavailable c w) w cs) = audioChunksRef w @ cs"
  by (induction cs arbitrary: w) (simp_all add: ondataavailable_def)

lemma foldl_data_frame:
  "mediaRecorderRef (foldl (\<lambda>w c. ondataavailable c w) w cs) = mediaRecorderRef w"
  "recorders (foldl (\<lambda>w c. ondataavailable c w) w cs) = recorders w"
  "streams (foldl (\<lambda>w c. ondataavailable c w) w cs) = streams w"
  "uncaught (foldl (\<lambda>w c. ondataavailable c w) w cs) = uncaught w"
  "error (foldl (\<lambda>w c. ondataavailable c w) w cs) = error w"
  by (induction cs arbitrary: w) (simp_all add: ondataavailable_def)

lemma staged_fields:
  "audioFile staged = None" "imageFile staged = Some rash_png" "loading staged = False"
  "posted staged = []" "objectURLs staged = []" "responseAudio staged = None"
  "atobCalls staged = []" "error staged = None"
  by (simp_all add: staged_def handleImageUpload_def init_def)

text \<open>
  On a page that has just been rendered, the closure is the handler of the current
  state and the button is disabled iff the state says so.
\<close>

lemma handleFullConsultation_render:
  "handleFullConsultation_of (render w) w = handleFullConsultation w"
  by (simp add: handleFullConsultation_of_def handleFullConsultation_def render_def)

lemma click_consult_render:
  "click_consult (render w) w = (if consult_disabled w then w else handleFullConsultation w)"
  by (simp add: click_consult_def handleFullConsultation_of_def handleFullConsultation_def
      render_def)

lemma run_page_Cons: "run_page (e # es) p = run_page es (step e p)"
  by (simp add: run_page_def)

text \<open>No event takes an entry out of the object-URL store.\<close>

lemma step_objectURLs: "\<exists>ys. objectURLs (snd (step e (v, w))) = objectURLs w @ ys"
proof (cases e)
  case (StartRecording g)
  then show ?thesis
    by (simp add: startRecording_def Let_def
        split: sum.split prod.split recorder_start.split)
next
  case (StopEvent fin r)
  then show ?thesis by (cases fin) (simp_all add: fire_stop_def onstop_def)
next
  case (Settle res)
  then show ?thesis
    by (cases res)
      (auto simp: handleFullConsultation_resume_def Let_def split: option.splits)
next
  case (ImageUpload f)
  then show ?thesis by (cases f) (simp_all add: handleImageUpload_def)
next
  case (AudioUpload f)
  then show ?thesis by (cases f) (simp_all add: handleAudioUpload_def)
qed (simp_all add: ondataavailable_def stopRecording_def MediaRecorder_stop_def
      click_consult_def handleFullConsultation_of_def split: option.splits)

lemma run_page_objectURLs:
  "\<exists>ys. objectURLs (snd (run_page es p)) = objectURLs (snd p) @ ys"
proof (induction es arbitrary: p)
  case Nil
  show ?case by (simp add: run_page_def)
next
  case (Cons e es)
  obtain v w where p: "p = (v, w)" by (cases p)
  obtain ys where a: "objectURLs (snd (step e p)) = objectURLs (snd p) @ ys"
    using step_objectURLs [of e v w] p by auto
  obtain zs where
    "objectURLs (snd (run_page es (step e p))) = objectURLs (snd (step e p)) @ zs"
    using Cons.IH by blast
  with a show ?case by (simp add: run_page_Cons)
qed

lemma run_objectURLs_take:
  "take (length (objectURLs w)) (objectURLs (run es w)) = objectURLs w"
proof -
  obtain ys where "objectURLs (run es w) = objectURLs w @ ys"
    using run_page_objectURLs [of es "(render w, w)"] by (auto simp: run_def)
  then show ?thesis by simp
qed

text \<open>
  On a page whose consult button is disabled, in a world where \<open>loading\<close> is set,
  no event other than the settlement of the request enables the button, clears
  \<open>loading\<close> or sends a request.
\<close>

lemma step_while_loading:
  assumes "consult_button_disabled v" and "loading w" and "\<not> settles e"
  shows "consult_button_disabled (fst (step e (v, w))) \<and> loading (snd (step e (v, w)))
       \<and> posted (snd (step e (v, w))) = posted w"
proof (cases e)
  case (StartRecording g)
  with assms show ?thesis
    by (simp add: startRecording_def Let_def
        split: sum.split prod.split recorder_start.split)
next
  case (StopEvent fin r)
  with assms show ?thesis by (cases fin) (simp_all add: fire_stop_def onstop_def)
next
  case (ImageUpload f)
  with assms show ?thesis by (cases f) (simp_all add: handleImageUpload_def)
next
  case (AudioUpload f)
  with assms show ?thesis by (cases f) (simp_all add: handleAudioUpload_def)
next
  case (Settle res)
  with assms show ?thesis by simp
next
  case Rerender
  with assms show ?thesis by (simp add: render_def consult_disabled_def)
qed (insert assms, simp_all add: ondataavailable_def stopRecording_def MediaRecorder_stop_def
      click_consult_def split: option.splits)

lemma run_page_while_loading:
  "consult_button_disabled (fst p) \<Longrightarrow> loading (snd p) \<Longrightarrow>
   list_all (\<lambda>e. \<not> settles e) es \<Longrightarrow>
     loading (snd (run_page es p)) \<and> posted (snd (run_page es p)) = posted (snd p)"
proof (induction es arbitrary: p)
  case Nil
  then show ?case by (simp add: run_page_def)
next
  case (Cons e es)
  obtain v w where p: "p = (v, w)" by (cases p)
  from Cons.prems p have
    a: "consult_button_disabled (fst (step e p)) \<and> loading (snd (step e p))
        \<and> posted (snd (step e p)) = posted (snd p)"
    using step_while_loading [of v w e] by simp
  with Cons.prems have
    "loading (snd (run_page es (step e p)))
     \<and> posted (snd (run_page es (step e p))) = posted (snd (step e p))"
    by (intro Cons.IH) simp_all
  with a show ?case by (simp add: run_page_Cons)
qed





text \<open>
  \<open>getUserMedia\<close> resolving twice before a stop (the record button was clicked twice
  while the permission prompt was open): \<open>mediaRecorderRef\<close> refers to the second
  recorder only, and the first stream is still live after the stop.
\<close>

lemma second_start_orphans_first_stream:
  "streams (run [StartRecording (Inr (1, Starts)), StartRecording (Inr (1, Starts)),
                 StopRecording, StopEvent Completes 1] init) =
     [[\<lparr>ended = False, stop_calls = 0\<rparr>], [\<lparr>ended = True, stop_calls = 1\<rparr>]]"
  by (simp add: run_def run_page_def startRecording_def stopRecording_def
      MediaRecorder_stop_def fire_stop_def onstop_def init_def live_track_def track_stop_def)

text \<open>
  A stream is granted and the recorder's constructor or its \<open>start()\<close> throws: the
  message is shown, the flag stays off, and the granted stream is left live.
\<close>

lemma failed_start_leaves_stream_live:
  "streams (startRecording (Inr (1, ConstructorThrows ''NotSupportedError'')) init) =
     [[\<lparr>ended = False, stop_calls = 0\<rparr>]]"
  "streams (startRecording (Inr (1, StartThrows ''NotSupportedError'')) init) =
     [[\<lparr>ended = False, stop_calls = 0\<rparr>]]"
  "isRecording (startRecording (Inr (1, StartThrows ''NotSupportedError'')) init) = False"
  "error (startRecording (Inr (1, StartThrows ''NotSupportedError'')) init) =
     Some ''Error accessing microphone: NotSupportedError''"
  by (simp_all add: startRecording_def init_def live_track_def microphone_error_def)

text \<open>
  The handler itself does not look at \<open>loading\<close>: run twice in a row it sends two
  requests. What keeps a second submission out is the button, once it is rendered
  disabled.
\<close>

lemma handleFullConsultation_unguarded:
  "posted (handleFullConsultation (handleFullConsultation staged)) =
     [\<lparr>form_audio = None, form_image = Some rash_png\<rparr>,
      \<lparr>form_audio = None, form_image = Some rash_png\<rparr>]"
  by (simp add: handleFullConsultation_def staged_fields)

section \<open>Recording\<close>

text \<open>
  C1, as the code has it. When the recorder that \<open>mediaRecorderRef\<close> refers to is
  recording on stream \<open>sid\<close>, \<open>stopRecording\<close> itself touches no stream; the
  \<open>stop\<close> event that follows, if the clip is finalized without an exception, calls
  \<open>stop()\<close> once on every track of \<open>sid\<close> and on nothing else, so all its tracks
  have ended; and a further \<open>stopRecording\<close> with whatever event follows it releases
  nothing again.
\<close>

theorem C1_release_when_finalized:
  assumes "mediaRecorderRef w = Some r" and "r < length (recorders w)"
    and "rec_state (recorders w ! r) = Recording"
    and "rec_stream (recorders w ! r) = sid" and "sid < length (streams w)"
  shows "streams (stopRecording w) = streams w
       \<and> streams (fire_stop Completes r (stopRecording w)) =
           (streams w)[sid := map track_stop (streams w ! sid)]
       \<and> list_all ended (streams (fire_stop Completes r (stopRecording w)) ! sid)
       \<and> map stop_calls (streams (fire_stop Completes r (stopRecording w)) ! sid) =
           map (\<lambda>t. stop_calls t + 1) (streams w ! sid)
       \<and> streams (fire_stop fin r (stopRecording (fire_stop Completes r (stopRecording w)))) =
           streams (fire_stop Completes r (stopRecording w))"
  using assms
  by (simp add: fire_stop_def stopRecording_def MediaRecorder_stop_def onstop_def
      track_stop_def list_all_iff comp_def)

theorem C1_release_when_finalized_witness:
  "mediaRecorderRef recording = Some 0 \<and> rec_state (recorders recording ! 0) = Recording
   \<and> streams recording = [[\<lparr>ended = False, stop_calls = 0\<rparr>]]
   \<and> streams (fire_stop Completes 0 (stopRecording recording)) =
       [[\<lparr>ended = True, stop_calls = 1\<rparr>]]
   \<and> streams (fire_stop Completes 0
        (stopRecording (fire_stop Completes 0 (stopRecording recording)))) =
       [[\<lparr>ended = True, stop_calls = 1\<rparr>]]"
  using C1_release_when_finalized [of recording 0 0 Completes]
  by (simp add: recording_def startRecording_def init_def live_track_def track_stop_def)

text \<open>
  C1, as the specification has it, fails when finalization throws: the exception
  leaves the \<open>onstop\<close> handler before the tracks are stopped, and the single track of
  the session is still live, \<open>stop()\<close> never called on it.
\<close>

theorem C1_not_released_when_finalization_throws:
  "streams (fire_stop (Throws ''RangeError'') 0 (stopRecording recording)) =
     [[\<lparr>ended = False, stop_calls = 0\<rparr>]]"
  by (simp add: fire_stop_def stopRecording_def MediaRecorder_stop_def onstop_def
      recording_def startRecording_def init_def live_track_def)

text \<open>
  C6. A session is started in any world; chunks \<open>cs1\<close> arrive; \<open>stopRecording\<close> is
  called; the chunks \<open>cs2\<close> gathered up to the stop arrive; the \<open>stop\<close> event fires.
  The staged clip is then the file \<open>recording.wav\<close> of type \<open>audio/wav\<close> whose bytes
  are those of the chunks, concatenated in arrival order; no exception and no error
  message is produced. With no chunks at all the clip is the empty file of that name.
\<close>

theorem C6_clip_is_concatenation:
  "audioFile (fire_stop Completes (length (recorders w))
       (foldl (\<lambda>w c. ondataavailable c w)
          (stopRecording (foldl (\<lambda>w c. ondataavailable c w) (startRecording (Inr (n, Starts)) w) cs1))
          cs2)) =
     Some \<lparr>file_bytes = concat (map blob_bytes (cs1 @ cs2)), file_name = ''recording.wav'',
           file_type = ''audio/wav''\<rparr>
   \<and> uncaught (fire_stop Completes (length (recorders w))
       (foldl (\<lambda>w c. ondataavailable c w)
          (stopRecording (foldl (\<lambda>w c. ondataavailable c w) (startRecording (Inr (n, Starts)) w) cs1))
          cs2)) = uncaught w
   \<and> error (fire_stop Completes (length (recorders w))
       (foldl (\<lambda>w c. ondataavailable c w)
          (stopRecording (foldl (\<lambda>w c. ondataavailable c w) (startRecording (Inr (n, Starts)) w) cs1))
          cs2)) = error w
   \<and> audioFile (fire_stop Completes (length (recorders w))
       (stopRecording (startRecording (Inr (n, Starts)) w))) =
     Some \<lparr>file_bytes = [], file_name = ''recording.wav'', file_type = ''audio/wav''\<rparr>"
  by (simp add: fire_stop_def onstop_def foldl_data_frame chunks_foldl stopRecording_def
      MediaRecorder_stop_def startRecording_def new_Blob_def new_File_def comp_def)

theorem C6_clip_is_concatenation_witness:
  "audioFile (fire_stop Completes 0
       (ondataavailable \<lparr>blob_bytes = [3], blob_type = ''audio/webm''\<rparr>
          (stopRecording
             (ondataavailable \<lparr>blob_bytes = [1, 2], blob_type = ''audio/webm''\<rparr>
                (startRecording (Inr (1, Starts)) init))))) =
     Some \<lparr>file_bytes = [1, 2, 3], file_name = ''recording.wav'', file_type = ''audio/wav''\<rparr>
   \<and> audioFile (fire_stop Completes 0 (stopRecording (startRecording (Inr (1, Starts)) init))) =
     Some \<lparr>file_bytes = [], file_name = ''recording.wav'', file_type = ''audio/wav''\<rparr>"
  using C6_clip_is_concatenation [of init 1
      "[\<lparr>blob_bytes = [1, 2], blob_type = ''audio/webm''\<rparr>]"
      "[\<lparr>blob_bytes = [3], blob_type = ''audio/webm''\<rparr>]"]
  by (simp add: init_def)



section \<open>Submission\<close>

text \<open>
  C2, as the code has it. What keeps a second submission out is the
  \<open>disabled\<close> attribute of the consult button, which changes when the page is
  rendered again. A button rendered while \<open>loading\<close> is set ignores a click
  whatever the state has become. So from a page whose button is enabled, after one
  click and the render that follows it, whatever events come before the request
  settles (clicks on the button and further renders included), the log holds exactly
  one more request, that of the first click, and \<open>loading\<close> stays set. The same
  holds for every run without a settlement from a page rendered while \<open>loading\<close>
  is set: no request is sent.
\<close>

theorem C2_button_guard_after_render:
  "(loading w0 \<longrightarrow> click_consult (render w0) w = w)
   \<and> (\<not> consult_disabled w \<and> list_all (\<lambda>e. \<not> settles e) es \<longrightarrow>
        loading (run (ClickConsult # Rerender # es) w)
      \<and> posted (run (ClickConsult # Rerender # es) w) =
          posted w @ [\<lparr>form_audio = audioFile w, form_image = imageFile w\<rparr>])
   \<and> (loading w \<and> list_all (\<lambda>e. \<not> settles e) es \<longrightarrow>
        loading (run es w) \<and> posted (run es w) = posted w)"
proof -
  have a: "click_consult (render w0) w = w" if "loading w0"
    using that by (simp add: click_consult_def render_def consult_disabled_def)
  have b: "loading (run (ClickConsult # Rerender # es) w)
      \<and> posted (run (ClickConsult # Rerender # es) w) =
          posted w @ [\<lparr>form_audio = audioFile w, form_image = imageFile w\<rparr>]"
    if en: "\<not> consult_disabled w" and ns: "list_all (\<lambda>e. \<not> settles e) es"
  proof -
    let ?w1 = "handleFullConsultation w"
    from en have l: "loading ?w1"
      and q: "posted ?w1 = posted w @ [\<lparr>form_audio = audioFile w, form_image = imageFile w\<rparr>]"
      by (simp_all add: handleFullConsultation_def consult_disabled_def)
    from en have "run (ClickConsult # Rerender # es) w = snd (run_page es (render ?w1, ?w1))"
      by (simp add: run_def run_page_Cons click_consult_render)
    moreover from l have "consult_button_disabled (fst (render ?w1, ?w1))"
      by (simp add: render_def consult_disabled_def)
    ultimately show ?thesis
      using run_page_while_loading [of "(render ?w1, ?w1)" es] l q ns by simp
  qed
  have c: "loading (run es w) \<and> posted (run es w) = posted w"
    if "loading w" and "list_all (\<lambda>e. \<not> settles e) es"
    using that run_page_while_loading [of "(render w, w)" es]
    by (simp add: run_def render_def consult_disabled_def)
  from a b c show ?thesis by blast
qed

theorem C2_button_guard_after_render_witness:
  "\<not> consult_disabled staged
   \<and> posted (run [ClickConsult, Rerender, ClickConsult, ClickConsult] staged) =
       [\<lparr>form_audio = None, form_image = Some rash_png\<rparr>]
   \<and> loading (run [ClickConsult, Rerender, ClickConsult, ClickConsult] staged)
   \<and> click_consult (render (handleFullConsultation staged)) (handleFullConsultation staged) =
       handleFullConsultation staged"
  using C2_button_guard_after_render [of "handleFullConsultation staged" staged
      "[ClickConsult, ClickConsult]"]
    C2_button_guard_after_render [of "handleFullConsultation staged"
      "handleFullConsultation staged" "[]"]
  by (simp add: handleFullConsultation_def consult_disabled_def staged_fields)

text \<open>
  C2, as the specification has it, fails for two clicks that reach the button before the
  page is rendered again: the button is still the enabled one of the last render, the
  handler does not look at \<open>loading\<close>, and two requests are sent.
\<close>

theorem C2_two_clicks_before_render:
  "posted (run [ClickConsult, ClickConsult] staged) =
     [\<lparr>form_audio = None, form_image = Some rash_png\<rparr>,
      \<lparr>form_audio = None, form_image = Some rash_png\<rparr>]"
  by (simp add: run_def run_page_def click_consult_def handleFullConsultation_of_def
      render_def consult_disabled_def staged_fields)

text \<open>
  C4. When both staging slots are empty, \<open>handleFullConsultation\<close> only sets the
  missing-input message: no request is sent, the staged slots and everything else stay
  as they were. A click on the consult button rendered in that state changes nothing
  at all.
\<close>

theorem C4_missing_input:
  assumes "audioFile w = None" and "imageFile w = None"
  shows "handleFullConsultation w = w\<lparr>error := Some missing_input_message\<rparr>
       \<and> posted (handleFullConsultation w) = posted w
       \<and> audioFile (handleFullConsultation w) = None
       \<and> imageFile (handleFullConsultation w) = None
       \<and> loading (handleFullConsultation w) = loading w
       \<and> click_consult (render w) w = w"
  using assms by (simp add: handleFullConsultation_def click_consult_render consult_disabled_def)

theorem C4_missing_input_witness:
  "audioFile init = None \<and> imageFile init = None
   \<and> handleFullConsultation init = init\<lparr>error := Some missing_input_message\<rparr>
   \<and> posted (handleFullConsultation init) = []
   \<and> click_consult (render init) init = init"
  using C4_missing_input [of init] by (simp add: init_def)

text \<open>
  C5, as the code has it. When the request is rejected, the message shown is the
  \<open>error\<close> field of the response body if there is a response, the field is there and
  it is not the empty string, and the fixed text \<open>Failed to process consultation\<close> in
  every other case; \<open>loading\<close> is cleared, the staged audio and image are unchanged,
  no further request is sent, and the consult button is enabled again iff something is
  staged.
\<close>

theorem C5_failure_message_and_inputs:
  "error (handleFullConsultation_resume (Rejected err) w) =
      Some (case err of
              NoResponse msg \<Rightarrow> failure_message
            | WithResponse status None \<Rightarrow> failure_message
            | WithResponse status (Some m) \<Rightarrow> if m = [] then failure_message else m)
   \<and> loading (handleFullConsultation_resume (Rejected err) w) = False
   \<and> audioFile (handleFullConsultation_resume (Rejected err) w) = audioFile w
   \<and> imageFile (handleFullConsultation_resume (Rejected err) w) = imageFile w
   \<and> posted (handleFullConsultation_resume (Rejected err) w) = posted w
   \<and> consult_disabled (handleFullConsultation_resume (Rejected err) w) =
        (audioFile w = None \<and> imageFile w = None)"
  by (simp add: handleFullConsultation_resume_def consult_disabled_def
      split: axios_error.split option.split)

theorem C5_failure_message_and_inputs_witness:
  "error (consult (Rejected (WithResponse 500 (Some ''model unavailable''))) staged) =
     Some ''model unavailable''
   \<and> loading (consult (Rejected (WithResponse 500 (Some ''model unavailable''))) staged) = False
   \<and> imageFile (consult (Rejected (WithResponse 500 (Some ''model unavailable''))) staged) =
       Some rash_png
   \<and> \<not> consult_disabled (consult (Rejected (WithResponse 500 (Some ''model unavailable''))) staged)"
  using C5_failure_message_and_inputs
    [of "WithResponse 500 (Some ''model unavailable'')" "click_consult (render staged) staged"]
  by (simp add: consult_def click_consult_render consult_disabled_def handleFullConsultation_def
      staged_fields)

text \<open>
  C5, as the specification has it, fails for a response whose \<open>error\<close> field is the
  empty string: what is shown is not that message but the fixed text.
\<close>

theorem C5_empty_message_not_verbatim:
  "error (consult (Rejected (WithResponse 500 (Some ''''))) staged) \<noteq> Some ''''"
  by (simp add: consult_def click_consult_render consult_disabled_def handleFullConsultation_def
      handleFullConsultation_resume_def staged_fields failure_message_def)

section \<open>Response audio\<close>

text \<open>
  C3, as the code has it. \<open>responseAudio\<close> refers to one object URL at most. A reply
  whose \<open>response_audio\<close> is a non-empty string that \<open>atob\<close> decodes appends the
  decoded blob to the object-URL store and makes \<open>responseAudio\<close> refer to the new
  entry; and after any run of events every entry that was in the store before is
  still there: nothing is ever revoked.
\<close>

theorem C3_new_url_keeps_old:
  assumes "r_response_audio data = Some p" and "p \<noteq> []" and "atob p = Some bin"
  shows "objectURLs (handleFullConsultation_resume (Fulfilled data) w) =
           objectURLs w @ [new_Blob [BufferPart (Uint8Array_from bin)] ''audio/mpeg'']
       \<and> responseAudio (handleFullConsultation_resume (Fulfilled data) w) =
           Some (length (objectURLs w))
       \<and> take (length (objectURLs w)) (objectURLs (run es w)) = objectURLs w"
  using assms by (simp add: handleFullConsultation_resume_def run_objectURLs_take)

theorem C3_new_url_keeps_old_witness:
  "length (objectURLs (consult (Fulfilled audio_reply) staged)) = 1
   \<and> responseAudio (consult (Fulfilled audio_reply) staged) = Some 0
   \<and> length (objectURLs (consult (Fulfilled audio_reply) (consult (Fulfilled audio_reply) staged))) = 2
   \<and> responseAudio (consult (Fulfilled audio_reply) (consult (Fulfilled audio_reply) staged)) =
       Some 1
   \<and> take 1 (objectURLs (consult (Fulfilled audio_reply) (consult (Fulfilled audio_reply) staged))) =
       objectURLs (consult (Fulfilled audio_reply) staged)"
  using C3_new_url_keeps_old [of audio_reply "''aGk=''" "''hi''" "click_consult (render staged) staged" "[]"]
    C3_new_url_keeps_old [of audio_reply "''aGk=''" "''hi''"
      "click_consult (render (consult (Fulfilled audio_reply) staged))
         (consult (Fulfilled audio_reply) staged)" "[]"]
  by (simp add: consult_def click_consult_render consult_disabled_def handleFullConsultation_def
      staged_fields audio_reply_def atob_hi)

text \<open>
  C3, as the specification has it, fails after two consultations whose replies carry
  audio: the store holds two object URLs, not at most one.
\<close>

theorem C3_two_resources_held:
  "\<not> length (objectURLs (consult (Fulfilled audio_reply)
        (consult (Fulfilled audio_reply) staged))) \<le> 1"
  by (simp add: consult_def click_consult_render consult_disabled_def handleFullConsultation_def
      handleFullConsultation_resume_def staged_fields audio_reply_def atob_hi)

text \<open>
  C7, as the code has it. A reply without a \<open>response_audio\<close> field only stores
  the transcription and the analysis and clears \<open>loading\<close>: \<open>atob\<close> is not
  called, the object-URL store and \<open>responseAudio\<close> are as before. The same reply
  with the empty string in that field leaves the very same world: the test on the
  field is its truthiness, which does not tell an empty string from a missing field.
\<close>

theorem C7_absent_audio_no_decode:
  assumes "r_response_audio data = None"
  shows "handleFullConsultation_resume (Fulfilled data) w =
           w\<lparr>transcription := r_transcription data, imageAnalysis := r_analysis data,
             loading := False\<rparr>
       \<and> atobCalls (handleFullConsultation_resume (Fulfilled data) w) = atobCalls w
       \<and> objectURLs (handleFullConsultation_resume (Fulfilled data) w) = objectURLs w
       \<and> responseAudio (handleFullConsultation_resume (Fulfilled data) w) = responseAudio w
       \<and> handleFullConsultation_resume (Fulfilled (data\<lparr>r_response_audio := Some []\<rparr>)) w =
           handleFullConsultation_resume (Fulfilled data) w"
  using assms by (simp add: handleFullConsultation_resume_def)

theorem C7_absent_audio_no_decode_witness:
  "r_response_audio text_reply = None
   \<and> atobCalls (consult (Fulfilled text_reply) staged) = []
   \<and> objectURLs (consult (Fulfilled text_reply) staged) = []
   \<and> responseAudio (consult (Fulfilled text_reply) staged) = None
   \<and> transcription (consult (Fulfilled text_reply) staged) = Some ''I have a headache''"
  using C7_absent_audio_no_decode [of text_reply "click_consult (render staged) staged"]
  by (simp add: consult_def click_consult_render consult_disabled_def handleFullConsultation_def
      staged_fields text_reply_def)

text \<open>
  C7, as the specification has it, fails in its last part: in a second consultation,
  the reply without the field and the reply with the empty string in it are not
  treated as distinct. Both leave the same world.
\<close>

theorem C7_absent_same_as_empty:
  "consult (Fulfilled text_reply) (consult (Fulfilled audio_reply) staged) =
   consult (Fulfilled (text_reply\<lparr>r_response_audio := Some ''''\<rparr>))
     (consult (Fulfilled audio_reply) staged)"
  by (simp add: consult_def handleFullConsultation_resume_def text_reply_def)

text \<open>
  C8. When \<open>response_audio\<close> is a string that \<open>atob\<close> rejects, the decode error is
  caught: the failure message is shown and \<open>loading\<close> is cleared, no object URL is
  created, and \<open>responseAudio\<close> is what it was before.
\<close>

theorem C8_malformed_audio_no_resource:
  assumes "r_response_audio data = Some p" and "atob p = None"
  shows "objectURLs (handleFullConsultation_resume (Fulfilled data) w) = objectURLs w
       \<and> responseAudio (handleFullConsultation_resume (Fulfilled data) w) = responseAudio w
       \<and> error (handleFullConsultation_resume (Fulfilled data) w) = Some failure_message
       \<and> loading (handleFullConsultation_resume (Fulfilled data) w) = False"
proof -
  from assms(2) have "p \<noteq> []" by (rule atob_None_nonempty)
  with assms show ?thesis by (simp add: handleFullConsultation_resume_def)
qed

theorem C8_malformed_audio_no_resource_witness:
  "atob ''!!!'' = None
   \<and> objectURLs (consult (Fulfilled (audio_reply\<lparr>r_response_audio := Some ''!!!''\<rparr>)) staged) = []
   \<and> responseAudio (consult (Fulfilled (audio_reply\<lparr>r_response_audio := Some ''!!!''\<rparr>)) staged) =
       None
   \<and> error (consult (Fulfilled (audio_reply\<lparr>r_response_audio := Some ''!!!''\<rparr>)) staged) =
       Some ''Failed to process consultation''"
  using C8_malformed_audio_no_resource
    [of "audio_reply\<lparr>r_response_audio := Some ''!!!''\<rparr>" "''!!!''" "click_consult (render staged) staged"]
  by (simp add: consult_def click_consult_render consult_disabled_def handleFullConsultation_def
      staged_fields atob_malformed failure_message_def)

text \<open>
  C10, as the code has it. A reply whose \<open>response_audio\<close> is the empty string leaves
  the same world as the reply without the field: \<open>atob\<close> is not called, no object URL
  is created, and \<open>responseAudio\<close> is not touched. The playback control is therefore
  offered afterwards exactly when the reply has a transcription or an analysis to show
  and \<open>responseAudio\<close> already referred to an object URL before the reply.
\<close>

theorem C10_empty_audio_as_absent:
  "handleFullConsultation_resume (Fulfilled (data\<lparr>r_response_audio := Some []\<rparr>)) w =
     handleFullConsultation_resume (Fulfilled (data\<lparr>r_response_audio := None\<rparr>)) w
   \<and> atobCalls (handleFullConsultation_resume (Fulfilled (data\<lparr>r_response_audio := Some []\<rparr>)) w) =
       atobCalls w
   \<and> objectURLs (handleFullConsultation_resume (Fulfilled (data\<lparr>r_response_audio := Some []\<rparr>)) w) =
       objectURLs w
   \<and> responseAudio
       (handleFullConsultation_resume (Fulfilled (data\<lparr>r_response_audio := Some []\<rparr>)) w) =
       responseAudio w
   \<and> playback_offered
       (handleFullConsultation_resume (Fulfilled (data\<lparr>r_response_audio := Some []\<rparr>)) w) =
       ((truthy (r_transcription data) \<or> truthy (r_analysis data)) \<and> responseAudio w \<noteq> None)"
  by (simp add: handleFullConsultation_resume_def playback_offered_def)

theorem C10_empty_audio_as_absent_witness:
  "consult (Fulfilled (text_reply\<lparr>r_response_audio := Some []\<rparr>)) staged =
     consult (Fulfilled text_reply) staged
   \<and> \<not> playback_offered (consult (Fulfilled (text_reply\<lparr>r_response_audio := Some []\<rparr>)) staged)"
  using C10_empty_audio_as_absent [of text_reply "click_consult (render staged) staged"]
  by (simp add: consult_def click_consult_render consult_disabled_def handleFullConsultation_def
      handleFullConsultation_resume_def playback_offered_def staged_fields text_reply_def)

text \<open>
  C10, as the specification has it, fails once an earlier reply has brought audio: the
  next reply, with an empty \<open>response_audio\<close>, leaves that object URL in
  \<open>responseAudio\<close>, and the playback control is offered.
\<close>

theorem C10_stale_playback_offered:
  "playback_offered
     (consult (Fulfilled (text_reply\<lparr>r_response_audio := Some ''''\<rparr>))
        (consult (Fulfilled audio_reply) staged))"
  by (simp add: consult_def click_consult_render consult_disabled_def handleFullConsultation_def
      handleFullConsultation_resume_def staged_fields audio_reply_def text_reply_def atob_hi
      playback_offered_def)

end
